theory Spec2Isabelle
  imports Complex_Main
begin

section \<open>Materials of the ray tracer (src/material.h)\<close>

text \<open>
  The C++ type \<open>double\<close> is read as \<open>real\<close>: arithmetic is exact, and the model is
  meant on inputs where every divisor is nonzero and every argument of \<open>sqrt\<close> is
  non-negative (elsewhere the C++ computes an infinity or a NaN, which \<open>real\<close> does not
  have). A theorem whose conclusion would differ at such a point carries the condition
  as a hypothesis.

  The calls \<open>random_cosine_direction()\<close>, \<open>random_unit_vector()\<close> and
  \<open>random_double()\<close> read a process-wide generator; the value drawn is an argument of
  the model. The reference parameters \<open>attenuation\<close>, \<open>scattered\<close> and \<open>pdf\<close> of
  \<open>scatter\<close> are a record that the model takes as it is before the call and returns
  as it is after the call, next to the \<open>bool\<close> the C++ returns.
\<close>

subsection \<open>Constants (src/InOneWeekend/rtweekend.h)\<close>

definition pi_const :: real where
  \<comment> \<open>\<open>const double pi = 3.1415926535897932385;\<close>\<close>
  "pi_const = 3.1415926535897932385"

subsection \<open>Vectors, rays, hit records, textures, orthonormal bases\<close>

text \<open>
  Modelled from the spec: \<open>vec3.h\<close> is not among the sources. A \<open>vec3\<close> has three
  \<open>double\<close> components; \<open>color\<close> and \<open>point3\<close> are other names of it. The operators
  are componentwise.
\<close>

datatype vec3 = Vec3 (vec_x: real) (vec_y: real) (vec_z: real)

type_synonym color = vec3
type_synonym point3 = vec3

instantiation vec3 :: ab_group_add
begin

definition zero_vec3 :: vec3 where
  \<comment> \<open>Modelled from the spec: \<open>vec3.h\<close> is missing; the zero vector.\<close>
  "zero_vec3 = Vec3 0 0 0"

definition plus_vec3 :: "vec3 \<Rightarrow> vec3 \<Rightarrow> vec3" where
  \<comment> \<open>Modelled from the spec: \<open>vec3.h\<close> is missing; \<open>operator+\<close> on vectors.\<close>
  "plus_vec3 a b = Vec3 (vec_x a + vec_x b) (vec_y a + vec_y b) (vec_z a + vec_z b)"

definition uminus_vec3 :: "vec3 \<Rightarrow> vec3" where
  \<comment> \<open>Modelled from the spec: \<open>vec3.h\<close> is missing; unary \<open>operator-\<close>.\<close>
  "uminus_vec3 a = Vec3 (- vec_x a) (- vec_y a) (- vec_z a)"

definition minus_vec3 :: "vec3 \<Rightarrow> vec3 \<Rightarrow> vec3" where
  \<comment> \<open>Modelled from the spec: \<open>vec3.h\<close> is missing; binary \<open>operator-\<close>.\<close>
  "minus_vec3 a b = Vec3 (vec_x a - vec_x b) (vec_y a - vec_y b) (vec_z a - vec_z b)"

instance
proof
  fix a b c :: vec3
  show "a + b + c = a + (b + c)" by (simp add: plus_vec3_def)
  show "a + b = b + a" by (simp add: plus_vec3_def)
  show "0 + a = a" by (simp add: plus_vec3_def zero_vec3_def)
  show "- a + a = 0" by (simp add: plus_vec3_def uminus_vec3_def zero_vec3_def)
  show "a - b = a + - b" by (simp add: plus_vec3_def uminus_vec3_def minus_vec3_def)
qed

end

definition smul :: "real \<Rightarrow> vec3 \<Rightarrow> vec3" where
  \<comment> \<open>Modelled from the spec: \<open>vec3.h\<close> is missing; \<open>operator*(double, vec3)\<close>.\<close>
  "smul t a = Vec3 (t * vec_x a) (t * vec_y a) (t * vec_z a)"

definition dot :: "vec3 \<Rightarrow> vec3 \<Rightarrow> real" where
  \<comment> \<open>Modelled from the spec: \<open>vec3.h\<close> is missing; the inner product.\<close>
  "dot a b = vec_x a * vec_x b + vec_y a * vec_y b + vec_z a * vec_z b"

definition cross :: "vec3 \<Rightarrow> vec3 \<Rightarrow> vec3" where
  \<comment> \<open>Modelled from the spec: \<open>vec3.h\<close> is missing; the cross product.\<close>
  "cross a b = Vec3 (vec_y a * vec_z b - vec_z a * vec_y b)
                    (vec_z a * vec_x b - vec_x a * vec_z b)
                    (vec_x a * vec_y b - vec_y a * vec_x b)"

definition length_vec :: "vec3 \<Rightarrow> real" where
  \<comment> \<open>Modelled from the spec: \<open>vec3.h\<close> is missing; the Euclidean norm.\<close>
  "length_vec a = sqrt (dot a a)"

definition unit_vector :: "vec3 \<Rightarrow> vec3" where
  \<comment> \<open>Modelled from the spec: \<open>vec3.h\<close> is missing; the vector divided by its norm.\<close>
  "unit_vector a = smul (1 / length_vec a) a"

definition reflect :: "vec3 \<Rightarrow> vec3 \<Rightarrow> vec3" where
  \<comment> \<open>Modelled from the spec: \<open>vec3.h\<close> is missing; \<open>reflect(v, n) = v - 2*dot(v,n)*n\<close>.\<close>
  "reflect a n = a - smul (2 * dot a n) n"

text \<open>
  Modelled from the spec: \<open>ray.h\<close> is not among the sources. A ray is an origin, a
  direction and a time; \<open>ray(o, d, t)\<close> builds one and \<open>direction()\<close>, \<open>time()\<close>
  read it.
\<close>

record ray =
  ray_origin :: point3
  ray_direction :: vec3
  ray_time :: real

definition mk_ray :: "point3 \<Rightarrow> vec3 \<Rightarrow> real \<Rightarrow> ray" where
  \<comment> \<open>Modelled from the spec: \<open>ray.h\<close> is missing; the constructor \<open>ray(o, d, t)\<close>.\<close>
  "mk_ray orig dir tm = \<lparr>ray_origin = orig, ray_direction = dir, ray_time = tm\<rparr>"

text \<open>
  Modelled from the spec: \<open>hittable.h\<close> is not among the sources. A hit record holds
  the point of intersection \<open>p\<close>, the surface normal, the distance \<open>t\<close> along the ray,
  the surface coordinates \<open>u\<close>, \<open>v\<close> and the front-face flag.
\<close>

record hit_record =
  rec_p :: point3
  rec_normal :: vec3
  rec_t :: real
  rec_u :: real
  rec_v :: real
  rec_front_face :: bool

text \<open>
  Modelled from the spec: \<open>texture.h\<close> is not among the sources. A texture is queried
  by \<open>value(u, v, p)\<close>, a pure function to a color; a solid color is the texture that
  returns one constant color.
\<close>

type_synonym texture = "real \<Rightarrow> real \<Rightarrow> point3 \<Rightarrow> color"

definition texture_value :: "texture \<Rightarrow> real \<Rightarrow> real \<Rightarrow> point3 \<Rightarrow> color" where
  \<comment> \<open>Modelled from the spec: \<open>texture.h\<close> is missing; the call \<open>tex->value(u, v, p)\<close>.\<close>
  "texture_value tex u v p = tex u v p"

definition solid_color :: "color \<Rightarrow> texture" where
  \<comment> \<open>Modelled from the spec: \<open>texture.h\<close> is missing; the constant texture.\<close>
  "solid_color c = (\<lambda>u v p. c)"

text \<open>
  Modelled from the spec: \<open>onb.h\<close> is not among the sources. The basis built from a
  normal keeps \<open>w\<close> exactly; with a helper axis chosen from \<open>w\<close> (the choice is an
  argument here), \<open>v = normalize(cross(helper, w))\<close> and \<open>u = cross(v, w)\<close>;
  \<open>local\<close> maps local coordinates to \<open>x*u + y*v + z*w\<close>.
\<close>

record onb =
  onb_u :: vec3
  onb_v :: vec3
  onb_w :: vec3

definition build_from_w :: "(vec3 \<Rightarrow> vec3) \<Rightarrow> vec3 \<Rightarrow> onb" where
  \<comment> \<open>Modelled from the spec: \<open>onb.h\<close> is missing; \<open>helper\<close> picks the helper axis.\<close>
  "build_from_w helper n =
     (let w = n;
          v = unit_vector (cross (helper w) w);
          u = cross v w
      in \<lparr>onb_u = u, onb_v = v, onb_w = w\<rparr>)"

definition onb_local :: "onb \<Rightarrow> vec3 \<Rightarrow> vec3" where
  \<comment> \<open>Modelled from the spec: \<open>onb.h\<close> is missing; \<open>local(a) = x*u + y*v + z*w\<close>.\<close>
  "onb_local uvw a =
     smul (vec_x a) (onb_u uvw) + smul (vec_y a) (onb_v uvw) + smul (vec_z a) (onb_w uvw)"

subsection \<open>The interface of a material\<close>

text \<open>The three reference parameters of \<open>scatter\<close>.\<close>

record scatter_refs =
  attenuation :: color
  scattered :: ray
  pdf :: real

text \<open>
  The body of a \<open>scattering_pdf\<close> is a sequence of statements, each an expression
  statement (the value is computed and dropped) or a \<open>return\<close>. A body that ends
  without a \<open>return\<close> hands no value to the caller: \<open>None\<close>.
\<close>

datatype 'a stmt = Expr_stmt 'a | Return_stmt 'a

fun run_body :: "'a stmt list \<Rightarrow> 'a option" where
  "run_body [] = None"
| "run_body (Expr_stmt e # ss) = run_body ss"
| "run_body (Return_stmt e # ss) = Some e"

definition material_emitted :: "ray \<Rightarrow> hit_record \<Rightarrow> real \<Rightarrow> real \<Rightarrow> point3 \<Rightarrow> color" where
  \<comment> \<open>\<open>material::emitted\<close>, the default\<close>
  "material_emitted r_in rec u v p = Vec3 0 0 0"

definition material_scattering_pdf :: "ray \<Rightarrow> hit_record \<Rightarrow> ray \<Rightarrow> real option" where
  \<comment> \<open>\<open>material::scattering_pdf\<close>, the default: \<open>{ return 0; }\<close>\<close>
  "material_scattering_pdf r_in rec sc = run_body [Return_stmt 0]"

subsection \<open>lambertian\<close>

record lambertian =
  lambertian_albedo :: texture

definition lambertian_of_color :: "color \<Rightarrow> lambertian" where
  \<comment> \<open>\<open>lambertian(const color& a) : albedo(make_shared<solid_color>(a))\<close>\<close>
  "lambertian_of_color a = \<lparr>lambertian_albedo = solid_color a\<rparr>"

definition lambertian_of_texture :: "texture \<Rightarrow> lambertian" where
  \<comment> \<open>\<open>lambertian(shared_ptr<texture> a) : albedo(a)\<close>\<close>
  "lambertian_of_texture a = \<lparr>lambertian_albedo = a\<rparr>"

definition lambertian_scatter ::
  "(vec3 \<Rightarrow> vec3) \<Rightarrow> lambertian \<Rightarrow> vec3 \<Rightarrow> ray \<Rightarrow> hit_record \<Rightarrow> scatter_refs \<Rightarrow> bool \<times> scatter_refs" where
  \<comment> \<open>\<open>cosine_direction\<close> is the value of \<open>random_cosine_direction()\<close>\<close>
  "lambertian_scatter helper m cosine_direction r_in rec refs =
     (let uvw = build_from_w helper (rec_normal rec);
          scatter_direction = onb_local uvw cosine_direction;
          refs1 = refs\<lparr>scattered := mk_ray (rec_p rec) scatter_direction (ray_time r_in)\<rparr>;
          refs2 = refs1\<lparr>attenuation :=
                    texture_value (lambertian_albedo m) (rec_u rec) (rec_v rec) (rec_p rec)\<rparr>;
          refs3 = refs2\<lparr>pdf := dot (onb_w uvw) (ray_direction (scattered refs2)) / pi_const\<rparr>
      in (True, refs3))"

definition lambertian_scattering_pdf :: "lambertian \<Rightarrow> ray \<Rightarrow> hit_record \<Rightarrow> ray \<Rightarrow> real option" where
  \<comment> \<open>the body is \<open>{ 1 / (2 * pi); }\<close>: an expression statement and no \<open>return\<close>\<close>
  "lambertian_scattering_pdf m r_in rec sc = run_body [Expr_stmt (1 / (2 * pi_const))]"

subsection \<open>metal\<close>

record metal =
  metal_albedo :: color
  metal_fuzz :: real

definition metal_ctor :: "color \<Rightarrow> real \<Rightarrow> metal" where
  \<comment> \<open>\<open>metal(const color& a, double f) : albedo(a), fuzz(f < 1 ? f : 1)\<close>\<close>
  "metal_ctor a f = \<lparr>metal_albedo = a, metal_fuzz = (if f < 1 then f else 1)\<rparr>"

definition metal_scatter ::
  "metal \<Rightarrow> vec3 \<Rightarrow> ray \<Rightarrow> hit_record \<Rightarrow> scatter_refs \<Rightarrow> bool \<times> scatter_refs" where
  \<comment> \<open>\<open>unit_draw\<close> is the value of \<open>random_unit_vector()\<close>\<close>
  "metal_scatter m unit_draw r_in rec refs =
     (let reflected = reflect (unit_vector (ray_direction r_in)) (rec_normal rec);
          refs1 = refs\<lparr>scattered :=
                    mk_ray (rec_p rec) (reflected + smul (metal_fuzz m) unit_draw) (ray_time r_in)\<rparr>;
          refs2 = refs1\<lparr>attenuation := metal_albedo m\<rparr>
      in (dot (ray_direction (scattered refs2)) (rec_normal rec) > 0, refs2))"

subsection \<open>dielectric\<close>

record dielectric =
  dielectric_ir :: real

definition dielectric_ctor :: "real \<Rightarrow> dielectric" where
  \<comment> \<open>\<open>dielectric(double index_of_refraction) : ir(index_of_refraction)\<close>\<close>
  "dielectric_ctor index_of_refraction = \<lparr>dielectric_ir = index_of_refraction\<rparr>"

definition reflectance :: "real \<Rightarrow> real \<Rightarrow> real" where
  \<comment> \<open>Schlick's approximation; \<open>pow(x, 5)\<close> is the fifth power\<close>
  "reflectance cosine ref_idx =
     (let r0 = (1 - ref_idx) / (1 + ref_idx);
          r0 = r0 * r0
      in r0 + (1 - r0) * (1 - cosine) ^ 5)"

definition refraction_ratio :: "dielectric \<Rightarrow> hit_record \<Rightarrow> real" where
  \<comment> \<open>the local \<open>refraction_ratio\<close> of \<open>dielectric::scatter\<close>\<close>
  "refraction_ratio m rec = (if rec_front_face rec then 1 / dielectric_ir m else dielectric_ir m)"

definition cos_theta :: "ray \<Rightarrow> hit_record \<Rightarrow> real" where
  \<comment> \<open>the local \<open>cos_theta\<close> of \<open>dielectric::scatter\<close>; \<open>fmin\<close> is the minimum\<close>
  "cos_theta r_in rec = min (dot (- unit_vector (ray_direction r_in)) (rec_normal rec)) 1"

definition sin_theta :: "ray \<Rightarrow> hit_record \<Rightarrow> real" where
  \<comment> \<open>the local \<open>sin_theta\<close> of \<open>dielectric::scatter\<close>\<close>
  "sin_theta r_in rec = sqrt (1 - cos_theta r_in rec * cos_theta r_in rec)"

definition dielectric_scatter ::
  "(vec3 \<Rightarrow> vec3 \<Rightarrow> real \<Rightarrow> vec3) \<Rightarrow> dielectric \<Rightarrow> real \<Rightarrow> ray \<Rightarrow> hit_record \<Rightarrow> scatter_refs
     \<Rightarrow> bool \<times> scatter_refs" where
  \<comment> \<open>\<open>refract\<close> is the function of that name of the missing \<open>vec3.h\<close>, of which the spec
      gives no formula; \<open>uniform_draw\<close> is the value of \<open>random_double()\<close>\<close>
  "dielectric_scatter refract m uniform_draw r_in rec refs =
     (let refs1 = refs\<lparr>attenuation := Vec3 1 1 1\<rparr>;
          unit_direction = unit_vector (ray_direction r_in);
          cannot_refract = (refraction_ratio m rec * sin_theta r_in rec > 1);
          dir = (if cannot_refract
                    \<or> reflectance (cos_theta r_in rec) (refraction_ratio m rec) > uniform_draw
                 then reflect unit_direction (rec_normal rec)
                 else refract unit_direction (rec_normal rec) (refraction_ratio m rec));
          refs2 = refs1\<lparr>scattered := mk_ray (rec_p rec) dir (ray_time r_in)\<rparr>
      in (True, refs2))"

subsection \<open>diffuse\_light\<close>

record diffuse_light =
  diffuse_light_emit :: texture

definition diffuse_light_of_texture :: "texture \<Rightarrow> diffuse_light" where
  \<comment> \<open>\<open>diffuse_light(shared_ptr<texture> a) : emit(a)\<close>\<close>
  "diffuse_light_of_texture a = \<lparr>diffuse_light_emit = a\<rparr>"

definition diffuse_light_of_color :: "color \<Rightarrow> diffuse_light" where
  \<comment> \<open>\<open>diffuse_light(color c) : emit(make_shared<solid_color>(c))\<close>\<close>
  "diffuse_light_of_color c = \<lparr>diffuse_light_emit = solid_color c\<rparr>"

definition diffuse_light_scatter ::
  "diffuse_light \<Rightarrow> ray \<Rightarrow> hit_record \<Rightarrow> scatter_refs \<Rightarrow> bool \<times> scatter_refs" where
  "diffuse_light_scatter m r_in rec refs = (False, refs)"

definition diffuse_light_emitted ::
  "diffuse_light \<Rightarrow> ray \<Rightarrow> hit_record \<Rightarrow> real \<Rightarrow> real \<Rightarrow> point3 \<Rightarrow> color" where
  "diffuse_light_emitted m r_in rec u v p =
     (if \<not> rec_front_face rec then Vec3 0 0 0
      else texture_value (diffuse_light_emit m) u v p)"

subsection \<open>isotropic\<close>

record isotropic =
  isotropic_albedo :: texture

definition isotropic_of_color :: "color \<Rightarrow> isotropic" where
  \<comment> \<open>\<open>isotropic(color c) : albedo(make_shared<solid_color>(c))\<close>\<close>
  "isotropic_of_color c = \<lparr>isotropic_albedo = solid_color c\<rparr>"

definition isotropic_of_texture :: "texture \<Rightarrow> isotropic" where
  \<comment> \<open>\<open>isotropic(shared_ptr<texture> a) : albedo(a)\<close>\<close>
  "isotropic_of_texture a = \<lparr>isotropic_albedo = a\<rparr>"

definition isotropic_scatter ::
  "isotropic \<Rightarrow> vec3 \<Rightarrow> ray \<Rightarrow> hit_record \<Rightarrow> scatter_refs \<Rightarrow> bool \<times> scatter_refs" where
  \<comment> \<open>\<open>unit_draw\<close> is the value of \<open>random_unit_vector()\<close>\<close>
  "isotropic_scatter m unit_draw r_in rec refs =
     (let refs1 = refs\<lparr>scattered := mk_ray (rec_p rec) unit_draw (ray_time r_in)\<rparr>;
          refs2 = refs1\<lparr>attenuation :=
                    texture_value (isotropic_albedo m) (rec_u rec) (rec_v rec) (rec_p rec)\<rparr>;
          refs3 = refs2\<lparr>pdf := 1 / (4 * pi_const)\<rparr>
      in (True, refs3))"

definition isotropic_scattering_pdf :: "isotropic \<Rightarrow> ray \<Rightarrow> hit_record \<Rightarrow> ray \<Rightarrow> real option" where
  \<comment> \<open>the body is \<open>{ return 1 / (4 * pi); }\<close>\<close>
  "isotropic_scattering_pdf m r_in rec sc = run_body [Return_stmt (1 / (4 * pi_const))]"

subsection \<open>A concrete scene\<close>

text \<open>
  The end-to-end scenario of the spec: a ray travelling along \<open>(0,0,-1)\<close> hits a
  surface with normal \<open>(0,0,1)\<close> at the origin. The reference parameters start
  zeroed.
\<close>

definition scenario_ray :: ray where
  "scenario_ray = mk_ray (Vec3 0 0 1) (Vec3 0 0 (- 1)) 0"

definition scenario_rec :: hit_record where
  "scenario_rec = \<lparr>rec_p = Vec3 0 0 0, rec_normal = Vec3 0 0 1, rec_t = 1, rec_u = 0, rec_v = 0,
                    rec_front_face = True\<rparr>"

definition scenario_refs :: scatter_refs where
  "scenario_refs =
     \<lparr>attenuation = Vec3 0 0 0, scattered = mk_ray (Vec3 0 0 0) (Vec3 0 0 0) 0, pdf = 0\<rparr>"

text \<open>
  A second scene, inside glass: a ray travelling along \<open>(4,0,-3)\<close> meets the surface from
  behind (the front-face flag is false), with the normal \<open>(0,0,1)\<close> turned against it.
\<close>

definition scenario_glass_ray :: ray where
  "scenario_glass_ray = mk_ray (Vec3 (- 4) 0 3) (Vec3 4 0 (- 3)) 0"

definition scenario_back_rec :: hit_record where
  "scenario_back_rec =
     \<lparr>rec_p = Vec3 0 0 0, rec_normal = Vec3 0 0 1, rec_t = 5, rec_u = 0, rec_v = 0,
      rec_front_face = False\<rparr>"

section \<open>Properties\<close>

subsection \<open>Vector algebra\<close>

lemma pi_const_pos: "0 < pi_const"
  by (simp add: pi_const_def)

lemma dot_plus_right: "dot a (b + c) = dot a b + dot a c"
  by (simp add: dot_def plus_vec3_def algebra_simps)

lemma dot_smul_right: "dot a (smul t b) = t * dot a b"
  by (simp add: dot_def smul_def algebra_simps)

lemma dot_cross_right: "dot n (cross a n) = 0"
  by (simp add: dot_def cross_def algebra_simps)

lemma dot_self_pos: "a \<noteq> 0 \<Longrightarrow> 0 < dot a a"
proof -
  assume nz: "a \<noteq> 0"
  obtain x y z where a: "a = Vec3 x y z" by (cases a)
  from nz a have "x \<noteq> 0 \<or> y \<noteq> 0 \<or> z \<noteq> 0" by (auto simp: zero_vec3_def)
  then have "0 < x * x + y * y + z * z"
    by (metis add_pos_nonneg add_nonneg_pos zero_le_square not_real_square_gt_zero add_nonneg_nonneg)
  with a show ?thesis by (simp add: dot_def)
qed

lemma cross_zero_right: "cross a 0 = 0"
  by (simp add: cross_def zero_vec3_def)

lemma smul_zero_left: "smul 0 a = 0"
  by (simp add: smul_def zero_vec3_def)

lemma dot_self_nonneg: "0 \<le> dot a a"
  by (simp add: dot_def)

lemma dot_smul_both: "dot (smul t a) (smul t a) = t * t * dot a a"
  by (simp add: dot_def smul_def algebra_simps)

lemma lagrange_identity:
  "dot (cross a b) (cross a b) = dot a a * dot b b - dot a b * dot a b"
  by (simp add: dot_def cross_def algebra_simps)

lemma cauchy_schwarz: "dot a b * dot a b \<le> dot a a * dot b b"
  using dot_self_nonneg [of "cross a b"] by (simp add: lagrange_identity)

lemma unit_vector_unit:
  assumes "a \<noteq> 0"
  shows "dot (unit_vector a) (unit_vector a) = 1"
proof -
  from assms have pos: "0 < dot a a" by (rule dot_self_pos)
  then have "sqrt (dot a a) * sqrt (dot a a) = dot a a" by simp
  with pos show ?thesis
    by (simp add: unit_vector_def length_vec_def dot_smul_both)
qed

text \<open>
  The component of a local direction along \<open>w\<close>: \<open>u\<close> and \<open>v\<close> are cross products with
  \<open>w\<close>, so only the \<open>z\<close> coordinate contributes.
\<close>

lemma dot_local_w:
  "dot n (onb_local (build_from_w helper n) d) = vec_z d * dot n n"
  by (simp add: onb_local_def build_from_w_def Let_def unit_vector_def
      dot_plus_right dot_smul_right dot_cross_right)

subsection \<open>Where the square root of dielectric::scatter is defined\<close>

text \<open>
  For a ray with a nonzero direction and a hit record with a unit normal, the argument
  of \<open>sqrt\<close> in \<open>sin_theta\<close> is non-negative, so the square root is a real number.
\<close>

lemma sin_theta_defined:
  assumes d: "ray_direction r_in \<noteq> 0"
    and n: "dot (rec_normal rec) (rec_normal rec) = 1"
  shows "0 \<le> 1 - cos_theta r_in rec * cos_theta r_in rec"
proof -
  let ?c = "dot (- unit_vector (ray_direction r_in)) (rec_normal rec)"
  have "?c * ?c \<le> dot (- unit_vector (ray_direction r_in)) (- unit_vector (ray_direction r_in))
                    * dot (rec_normal rec) (rec_normal rec)"
    by (rule cauchy_schwarz)
  also have "\<dots> = 1"
    using unit_vector_unit [OF d] n by (simp add: dot_def uminus_vec3_def)
  finally have sq: "?c * ?c \<le> 1" .
  then have "?c \<le> 1"
    by (metis abs_le_square_iff abs_one abs_le_D1 power2_eq_square one_power2)
  then have "cos_theta r_in rec = ?c"
    by (simp add: cos_theta_def)
  with sq show ?thesis by simp
qed

text \<open>
  With a unit normal the \<open>pdf\<close> that \<open>lambertian::scatter\<close> stores is the \<open>z\<close> coordinate
  of the drawn local direction over \<open>pi\<close>, the density of the cosine-weighted draw.
\<close>

lemma lambertian_pdf_unit_normal:
  assumes "dot (rec_normal rec) (rec_normal rec) = 1"
  shows "pdf (snd (lambertian_scatter helper m d r_in rec refs)) = vec_z d / pi_const"
proof -
  have "pdf (snd (lambertian_scatter helper m d r_in rec refs))
      = dot (rec_normal rec) (onb_local (build_from_w helper (rec_normal rec)) d) / pi_const"
    by (simp add: lambertian_scatter_def Let_def mk_ray_def build_from_w_def)
  with assms show ?thesis by (simp add: dot_local_w)
qed

subsection \<open>lambertian\<close>

text \<open>
  C1. \<open>lambertian::scattering_pdf\<close> is to return the constant \<open>1/(2*pi)\<close> for every
  incoming ray, hit record and scattered ray. The body computes the quotient in an
  expression statement and has no \<open>return\<close>: for every input the call hands back no
  value, so in particular not \<open>1/(2*pi)\<close>.
\<close>

theorem lambertian_scattering_pdf_no_value:
  "lambertian_scattering_pdf m r_in rec sc = None
   \<and> lambertian_scattering_pdf m r_in rec sc \<noteq> Some (1 / (2 * pi_const))"
  by (simp add: lambertian_scattering_pdf_def)

text \<open>
  C2. For every incoming ray and hit record, \<open>lambertian::scatter\<close> returns true, sets
  the attenuation to the texture's value at \<open>(rec.u, rec.v, rec.p)\<close>, gives the scattered
  ray the origin \<open>rec.p\<close> and the time of the incoming ray, and sets \<open>pdf\<close> to
  \<open>dot(w, scattered.direction) / pi\<close>, where \<open>w\<close> of the basis is the hit normal and the
  direction is the drawn local direction mapped through the basis. When the drawn
  direction has a positive \<open>z\<close> and the helper axis is not parallel to the normal (so the
  basis exists), \<open>pdf\<close> is positive.
\<close>

theorem lambertian_scatter_result:
  "let r = lambertian_scatter helper m d r_in rec refs in
     fst r = True
     \<and> attenuation (snd r) = texture_value (lambertian_albedo m) (rec_u rec) (rec_v rec) (rec_p rec)
     \<and> ray_origin (scattered (snd r)) = rec_p rec
     \<and> ray_time (scattered (snd r)) = ray_time r_in
     \<and> ray_direction (scattered (snd r)) = onb_local (build_from_w helper (rec_normal rec)) d
     \<and> onb_w (build_from_w helper (rec_normal rec)) = rec_normal rec
     \<and> pdf (snd r) = dot (rec_normal rec) (ray_direction (scattered (snd r))) / pi_const
     \<and> (0 < vec_z d \<and> cross (helper (rec_normal rec)) (rec_normal rec) \<noteq> 0 \<longrightarrow> 0 < pdf (snd r))"
proof -
  let ?n = "rec_normal rec"
  let ?r = "lambertian_scatter helper m d r_in rec refs"
  have w: "onb_w (build_from_w helper ?n) = ?n"
    by (simp add: build_from_w_def Let_def)
  have dir: "ray_direction (scattered (snd ?r)) = onb_local (build_from_w helper ?n) d"
    by (simp add: lambertian_scatter_def Let_def mk_ray_def)
  have p: "pdf (snd ?r) = dot ?n (ray_direction (scattered (snd ?r))) / pi_const"
    by (simp add: lambertian_scatter_def Let_def mk_ray_def w)
  have pos: "0 < pdf (snd ?r)" if z: "0 < vec_z d" and c: "cross (helper ?n) ?n \<noteq> 0"
  proof -
    from c have "?n \<noteq> 0" using cross_zero_right by metis
    then have "0 < dot ?n ?n" by (rule dot_self_pos)
    with z have "0 < vec_z d * dot ?n ?n" by simp
    then show ?thesis
      by (simp add: p dir dot_local_w pi_const_pos)
  qed
  have rest: "fst ?r = True"
    "attenuation (snd ?r) = texture_value (lambertian_albedo m) (rec_u rec) (rec_v rec) (rec_p rec)"
    "ray_origin (scattered (snd ?r)) = rec_p rec"
    "ray_time (scattered (snd ?r)) = ray_time r_in"
    by (simp_all add: lambertian_scatter_def Let_def mk_ray_def)
  from rest w dir p pos show ?thesis by (simp add: Let_def)
qed

text \<open>
  The scenario of the spec: albedo \<open>(0.5, 0.5, 0.5)\<close>, helper axis \<open>(1,0,0)\<close>, drawn
  local direction \<open>(0,0,1)\<close>.
\<close>

theorem lambertian_scatter_result_witness:
  "let r = lambertian_scatter (\<lambda>w. Vec3 1 0 0) (lambertian_of_color (Vec3 (1/2) (1/2) (1/2)))
             (Vec3 0 0 1) scenario_ray scenario_rec scenario_refs in
     0 < vec_z (Vec3 0 0 1)
     \<and> cross (Vec3 1 0 0) (rec_normal scenario_rec) \<noteq> 0
     \<and> fst r = True
     \<and> attenuation (snd r) = Vec3 (1/2) (1/2) (1/2)
     \<and> 0 < pdf (snd r)"
proof -
  let ?m = "lambertian_of_color (Vec3 (1/2) (1/2) (1/2))"
  let ?r = "lambertian_scatter (\<lambda>w. Vec3 1 0 0) ?m (Vec3 0 0 1) scenario_ray scenario_rec
              scenario_refs"
  have z: "0 < vec_z (Vec3 0 0 1)" by simp
  have c: "cross (Vec3 1 0 0) (rec_normal scenario_rec) \<noteq> 0"
    by (simp add: scenario_rec_def cross_def zero_vec3_def)
  note t = lambertian_scatter_result [of "\<lambda>w. Vec3 1 0 0" ?m "Vec3 0 0 1" scenario_ray
      scenario_rec scenario_refs, unfolded Let_def]
  from t z c have pos: "0 < pdf (snd ?r)" by blast
  from t have ok: "fst ?r = True" by blast
  from t have "attenuation (snd ?r)
      = texture_value (lambertian_albedo ?m) (rec_u scenario_rec) (rec_v scenario_rec)
          (rec_p scenario_rec)" by blast
  then have att: "attenuation (snd ?r) = Vec3 (1/2) (1/2) (1/2)"
    by (simp add: lambertian_of_color_def solid_color_def texture_value_def)
  from z c ok att pos show ?thesis by (simp add: Let_def)
qed

subsection \<open>metal\<close>

text \<open>
  C3, as amended. The fuzz stored by the \<open>metal\<close> constructor is the smaller of \<open>f\<close> and
  \<open>1\<close>: it never exceeds \<open>1\<close>, and it is non-negative whenever \<open>f\<close> is. The constructor
  clamps from above only.
\<close>

theorem metal_ctor_fuzz:
  "metal_fuzz (metal_ctor a f) = min f 1
   \<and> metal_fuzz (metal_ctor a f) \<le> 1
   \<and> (0 \<le> f \<longrightarrow> 0 \<le> metal_fuzz (metal_ctor a f))"
  by (simp add: metal_ctor_def min_def)

theorem metal_ctor_fuzz_witness:
  "(0::real) \<le> 2 \<and> metal_fuzz (metal_ctor (Vec3 1 1 1) 2) = 1
   \<and> 0 \<le> metal_fuzz (metal_ctor (Vec3 1 1 1) 2)"
  using metal_ctor_fuzz [of "Vec3 1 1 1" 2] by simp

text \<open>
  C3, as stated (the stored fuzz lies in \<open>[0, 1]\<close> for every \<open>f\<close>), fails at \<open>f = -1\<close>:
  the stored fuzz is \<open>-1\<close>.
\<close>

theorem metal_fuzz_not_in_unit_interval:
  "metal_fuzz (metal_ctor (Vec3 1 1 1) (- 1)) = - 1
   \<and> \<not> (0 \<le> metal_fuzz (metal_ctor (Vec3 1 1 1) (- 1))
         \<and> metal_fuzz (metal_ctor (Vec3 1 1 1) (- 1)) \<le> 1)"
  by (simp add: metal_ctor_def)

text \<open>
  C4. For every incoming ray and hit record, \<open>metal::scatter\<close> returns true exactly when
  \<open>dot(scattered.direction, rec.normal) > 0\<close>, where the direction is the mirror
  reflection of the normalized incoming direction plus \<open>fuzz\<close> times the random unit
  vector; the attenuation is the stored albedo whatever is returned.
\<close>

theorem metal_scatter_result:
  "let r = metal_scatter m unit_draw r_in rec refs in
     fst r = (dot (ray_direction (scattered (snd r))) (rec_normal rec) > 0)
     \<and> ray_direction (scattered (snd r))
         = reflect (unit_vector (ray_direction r_in)) (rec_normal rec)
           + smul (metal_fuzz m) unit_draw
     \<and> attenuation (snd r) = metal_albedo m"
  by (simp add: metal_scatter_def Let_def mk_ray_def)

text \<open>
  C8. For a metal built with \<open>fuzz = 0\<close>, whenever the mirror reflection of the
  normalized incoming direction has a positive inner product with the normal, \<open>scatter\<close>
  returns true and the scattered direction is exactly that reflection.
\<close>

theorem metal_fuzz_zero_mirror:
  assumes "0 < dot (reflect (unit_vector (ray_direction r_in)) (rec_normal rec)) (rec_normal rec)"
  shows "let r = metal_scatter (metal_ctor a 0) unit_draw r_in rec refs in
           fst r = True
           \<and> ray_direction (scattered (snd r))
               = reflect (unit_vector (ray_direction r_in)) (rec_normal rec)"
proof -
  have fz: "metal_fuzz (metal_ctor a 0) = 0"
    by (simp add: metal_ctor_def)
  have dir: "ray_direction (scattered (snd (metal_scatter (metal_ctor a 0) unit_draw r_in rec refs)))
      = reflect (unit_vector (ray_direction r_in)) (rec_normal rec)"
    by (simp add: metal_scatter_def Let_def mk_ray_def fz smul_zero_left)
  have "fst (metal_scatter (metal_ctor a 0) unit_draw r_in rec refs)
      = (0 < dot (reflect (unit_vector (ray_direction r_in)) (rec_normal rec)) (rec_normal rec))"
    by (simp add: metal_scatter_def Let_def mk_ray_def fz smul_zero_left)
  with assms dir show ?thesis by (simp add: Let_def)
qed

text \<open>In the scene above the reflection of \<open>(0,0,-1)\<close> about \<open>(0,0,1)\<close> is \<open>(0,0,1)\<close>.\<close>

theorem metal_fuzz_zero_mirror_witness:
  "0 < dot (reflect (unit_vector (ray_direction scenario_ray)) (rec_normal scenario_rec))
         (rec_normal scenario_rec)
   \<and> fst (metal_scatter (metal_ctor (Vec3 1 1 1) 0) (Vec3 1 0 0) scenario_ray scenario_rec
          scenario_refs) = True
   \<and> ray_direction (scattered (snd (metal_scatter (metal_ctor (Vec3 1 1 1) 0) (Vec3 1 0 0)
          scenario_ray scenario_rec scenario_refs))) = Vec3 0 0 1"
proof -
  have refl: "reflect (unit_vector (ray_direction scenario_ray)) (rec_normal scenario_rec)
      = Vec3 0 0 1"
    by (simp add: scenario_ray_def scenario_rec_def mk_ray_def unit_vector_def length_vec_def
        dot_def smul_def reflect_def minus_vec3_def)
  have h: "0 < dot (reflect (unit_vector (ray_direction scenario_ray)) (rec_normal scenario_rec))
         (rec_normal scenario_rec)"
    by (simp add: refl) (simp add: scenario_rec_def dot_def)
  from metal_fuzz_zero_mirror [OF h, of "Vec3 1 1 1" "Vec3 1 0 0" scenario_refs] h refl
  show ?thesis by (simp add: Let_def)
qed

subsection \<open>dielectric\<close>

lemma sqrt_25: "sqrt 25 = 5"
  using real_sqrt_abs2 [of 5] by simp

lemma sqrt_16_25: "sqrt (16 / 25) = 4 / 5"
  using real_sqrt_abs2 [of "4 / 5"] by (simp add: power2_eq_square)

lemma scenario_glass_unit:
  "unit_vector (ray_direction scenario_glass_ray) = Vec3 (4/5) 0 (- (3/5))"
  by (simp add: scenario_glass_ray_def mk_ray_def unit_vector_def length_vec_def dot_def smul_def
      sqrt_25)

lemma scenario_unit: "unit_vector (ray_direction scenario_ray) = Vec3 0 0 (- 1)"
  by (simp add: scenario_ray_def mk_ray_def unit_vector_def length_vec_def dot_def smul_def)

text \<open>
  C5. For every incoming ray and hit record, \<open>dielectric::scatter\<close> returns true and sets
  the attenuation to white. With \<open>ratio\<close> equal to \<open>1/ir\<close> on a front face and to \<open>ir\<close>
  otherwise, \<open>c = fmin(dot(-unit_direction, normal), 1)\<close>, \<open>s = sqrt(1 - c*c)\<close> and the
  Schlick reflectance \<open>r0 + (1 - r0)*(1 - c)^5\<close> for \<open>r0 = ((1 - ratio)/(1 + ratio))^2\<close>,
  the scattered ray starts at \<open>rec.p\<close> at the time of the incoming ray, and its direction
  is the mirror reflection of the normalized incoming direction when \<open>ratio * s > 1\<close>
  (total internal reflection) or when the uniform draw is below the Schlick reflectance,
  and the refraction with that ratio otherwise. The locals \<open>refraction_ratio\<close>,
  \<open>cos_theta\<close>, \<open>sin_theta\<close> and the function \<open>reflectance\<close> of the code compute exactly
  these quantities.
\<close>

theorem dielectric_scatter_result:
  "let r = dielectric_scatter refract m uniform_draw r_in rec refs;
       ratio = (if rec_front_face rec then 1 / dielectric_ir m else dielectric_ir m);
       unit_direction = unit_vector (ray_direction r_in);
       c = min (dot (- unit_direction) (rec_normal rec)) 1;
       s = sqrt (1 - c * c);
       r0 = ((1 - ratio) / (1 + ratio))\<^sup>2;
       schlick = r0 + (1 - r0) * (1 - c) ^ 5 in
     fst r = True
     \<and> attenuation (snd r) = Vec3 1 1 1
     \<and> refraction_ratio m rec = ratio
     \<and> cos_theta r_in rec = c
     \<and> sin_theta r_in rec = s
     \<and> reflectance c ratio = schlick
     \<and> ray_origin (scattered (snd r)) = rec_p rec
     \<and> ray_time (scattered (snd r)) = ray_time r_in
     \<and> ray_direction (scattered (snd r))
         = (if ratio * s > 1 \<or> uniform_draw < schlick
            then reflect unit_direction (rec_normal rec)
            else refract unit_direction (rec_normal rec) ratio)"
proof -
  let ?ratio = "if rec_front_face rec then 1 / dielectric_ir m else dielectric_ir m"
  let ?ud = "unit_vector (ray_direction r_in)"
  let ?c = "min (dot (- ?ud) (rec_normal rec)) 1"
  let ?s = "sqrt (1 - ?c * ?c)"
  let ?r0 = "((1 - ?ratio) / (1 + ?ratio))\<^sup>2"
  let ?schlick = "?r0 + (1 - ?r0) * (1 - ?c) ^ 5"
  let ?r = "dielectric_scatter refract m uniform_draw r_in rec refs"
  have ratio: "refraction_ratio m rec = ?ratio"
    by (simp add: refraction_ratio_def)
  have c: "cos_theta r_in rec = ?c"
    by (simp add: cos_theta_def)
  have s: "sin_theta r_in rec = ?s"
    by (simp only: sin_theta_def c)
  have schlick: "reflectance ?c ?ratio = ?schlick"
    by (simp only: reflectance_def Let_def power2_eq_square)
  have dir: "ray_direction (scattered (snd ?r))
      = (if refraction_ratio m rec * sin_theta r_in rec > 1
            \<or> uniform_draw < reflectance (cos_theta r_in rec) (refraction_ratio m rec)
         then reflect ?ud (rec_normal rec)
         else refract ?ud (rec_normal rec) (refraction_ratio m rec))"
    by (simp add: dielectric_scatter_def Let_def mk_ray_def)
  have dir': "ray_direction (scattered (snd ?r))
      = (if ?ratio * ?s > 1 \<or> uniform_draw < ?schlick
         then reflect ?ud (rec_normal rec)
         else refract ?ud (rec_normal rec) ?ratio)"
    by (simp only: dir ratio c s schlick)
  have rest: "fst ?r = True" "attenuation (snd ?r) = Vec3 1 1 1"
    "ray_origin (scattered (snd ?r)) = rec_p rec"
    "ray_time (scattered (snd ?r)) = ray_time r_in"
    by (simp_all add: dielectric_scatter_def Let_def mk_ray_def)
  show ?thesis
    unfolding Let_def
    using rest ratio c s schlick dir' by blast
qed

text \<open>
  The three branches at \<open>ir = 3/2\<close>, with \<open>smul e uv\<close> standing in for \<open>refract\<close>.
  Inside the glass, \<open>ratio = 3/2\<close>, \<open>c = 3/5\<close> and \<open>s = 4/5\<close>, so \<open>ratio * s = 6/5 > 1\<close>:
  the ray is reflected to \<open>(4/5, 0, 3/5)\<close> although the draw \<open>0.999\<close> is above the
  reflectance. At normal incidence on the front face, \<open>ratio = 2/3\<close>, \<open>s = 0\<close> and the
  reflectance is \<open>1/25\<close>: the draw \<open>0.01\<close> reflects to \<open>(0,0,1)\<close>, the draw \<open>0.5\<close> refracts.
\<close>

theorem dielectric_scatter_result_witness:
  "ray_direction (scattered (snd (dielectric_scatter (\<lambda>uv n e. smul e uv) (dielectric_ctor (3/2))
      (999/1000) scenario_glass_ray scenario_back_rec scenario_refs))) = Vec3 (4/5) 0 (3/5)
   \<and> ray_direction (scattered (snd (dielectric_scatter (\<lambda>uv n e. smul e uv) (dielectric_ctor (3/2))
      (1/100) scenario_ray scenario_rec scenario_refs))) = Vec3 0 0 1
   \<and> ray_direction (scattered (snd (dielectric_scatter (\<lambda>uv n e. smul e uv) (dielectric_ctor (3/2))
      (1/2) scenario_ray scenario_rec scenario_refs))) = Vec3 0 0 (- (2/3))"
proof -
  note t1 = dielectric_scatter_result [of "\<lambda>uv n e. smul e uv" "dielectric_ctor (3/2)" "999/1000"
      scenario_glass_ray scenario_back_rec scenario_refs, unfolded Let_def scenario_glass_unit]
  note t2 = dielectric_scatter_result [of "\<lambda>uv n e. smul e uv" "dielectric_ctor (3/2)" "1/100"
      scenario_ray scenario_rec scenario_refs, unfolded Let_def scenario_unit]
  note t3 = dielectric_scatter_result [of "\<lambda>uv n e. smul e uv" "dielectric_ctor (3/2)" "1/2"
      scenario_ray scenario_rec scenario_refs, unfolded Let_def scenario_unit]
  have a: "ray_direction (scattered (snd (dielectric_scatter (\<lambda>uv n e. smul e uv)
      (dielectric_ctor (3/2)) (999/1000) scenario_glass_ray scenario_back_rec scenario_refs)))
      = Vec3 (4/5) 0 (3/5)"
    using t1
    by (simp add: scenario_back_rec_def dielectric_ctor_def dot_def uminus_vec3_def sqrt_16_25
        reflect_def smul_def minus_vec3_def)
  have b: "ray_direction (scattered (snd (dielectric_scatter (\<lambda>uv n e. smul e uv)
      (dielectric_ctor (3/2)) (1/100) scenario_ray scenario_rec scenario_refs))) = Vec3 0 0 1"
    using t2
    by (simp add: scenario_rec_def dielectric_ctor_def dot_def uminus_vec3_def
        reflect_def smul_def minus_vec3_def power2_eq_square)
  have c: "ray_direction (scattered (snd (dielectric_scatter (\<lambda>uv n e. smul e uv)
      (dielectric_ctor (3/2)) (1/2) scenario_ray scenario_rec scenario_refs)))
      = Vec3 0 0 (- (2/3))"
    using t3
    by (simp add: scenario_rec_def dielectric_ctor_def dot_def uminus_vec3_def
        reflect_def smul_def minus_vec3_def power2_eq_square)
  from a b c show ?thesis by blast
qed

text \<open>
  C9. At \<open>cos_theta = 1\<close> the Schlick reflectance is \<open>((1-n)/(1+n))^2\<close> for every index
  \<open>n\<close> at which the quotient exists (\<open>n \<noteq> -1\<close>), and it is \<open>0\<close> at \<open>n = 1\<close>.
\<close>

theorem reflectance_normal_incidence:
  "(n \<noteq> - 1 \<longrightarrow> reflectance 1 n = ((1 - n) / (1 + n))\<^sup>2) \<and> reflectance 1 1 = 0"
  by (simp add: reflectance_def Let_def power2_eq_square)

theorem reflectance_normal_incidence_witness:
  "(3/2 :: real) \<noteq> - 1 \<and> reflectance 1 (3/2) = 1/25 \<and> reflectance 1 1 = 0"
  using reflectance_normal_incidence [of "3/2"] by (simp add: power2_eq_square)

subsection \<open>diffuse\_light\<close>

text \<open>
  C6. For every texture, ray, hit record and coordinates \<open>(u, v, p)\<close>,
  \<open>diffuse_light::emitted\<close> is the texture's value at \<open>(u, v, p)\<close> on a front face and
  the color \<open>(0,0,0)\<close> otherwise; \<open>diffuse_light::scatter\<close> returns false for every input.
\<close>

theorem diffuse_light_result:
  "diffuse_light_emitted (diffuse_light_of_texture tex) r_in rec u v p
     = (if rec_front_face rec then texture_value tex u v p else Vec3 0 0 0)
   \<and> fst (diffuse_light_scatter m r_in rec refs) = False"
  by (simp add: diffuse_light_emitted_def diffuse_light_of_texture_def diffuse_light_scatter_def)

subsection \<open>isotropic\<close>

text \<open>
  C7. For every incoming ray, hit record and scattered ray, \<open>isotropic::scattering_pdf\<close>
  returns the constant \<open>1/(4*pi)\<close>; \<open>isotropic::scatter\<close> returns true, sets \<open>pdf\<close> to the
  same constant and the attenuation to the texture's value at \<open>(rec.u, rec.v, rec.p)\<close>.
\<close>

theorem isotropic_result:
  "isotropic_scattering_pdf m r_in rec sc = Some (1 / (4 * pi_const))
   \<and> (let r = isotropic_scatter m unit_draw r_in rec refs in
        fst r = True
        \<and> pdf (snd r) = 1 / (4 * pi_const)
        \<and> attenuation (snd r)
            = texture_value (isotropic_albedo m) (rec_u rec) (rec_v rec) (rec_p rec))"
  by (simp add: isotropic_scattering_pdf_def isotropic_scatter_def Let_def)

subsection \<open>What scatter leaves alone\<close>

text \<open>
  C10. \<open>metal::scatter\<close>, \<open>dielectric::scatter\<close> and \<open>diffuse_light::scatter\<close> never assign
  to \<open>pdf\<close>: after the call it holds the value it held before, whatever is returned;
  \<open>diffuse_light::scatter\<close> leaves the attenuation and the scattered ray unchanged as
  well.
\<close>

theorem scatter_pdf_untouched:
  "pdf (snd (metal_scatter mm unit_draw r_in rec refs)) = pdf refs
   \<and> pdf (snd (dielectric_scatter refract dm uniform_draw r_in rec refs)) = pdf refs
   \<and> snd (diffuse_light_scatter lm r_in rec refs) = refs"
  by (simp add: metal_scatter_def dielectric_scatter_def diffuse_light_scatter_def Let_def)

end
